theory Spec2Isabelle
  imports Main
begin

section \<open>ANSI escape sequences: \<open>_ansi_escape\<close> and \<open>_filter_ansi\<close>\<close>

text \<open>
  Python strings are sequences of code points; the regular expression of
  \<open>prettier.py\<close> (and, unchanged, of \<open>prettier/prettier_log.py\<close>) only names code points
  below 128, so a string is modelled as a \<open>char list\<close> and a character class as a range of
  character codes.

  \<^verbatim>\<open>
  _ansi_escape = re.compile(r'''
      \x1B  # ESC
      (?:   # 7-bit C1 Fe (except CSI)
          [@-Z\\-_]
      |     # or [ for CSI, followed by a control sequence
          \[
          [0-?]*  # Parameter bytes
          [ -/]*  # Intermediate bytes
          [@-~]   # Final byte
      )
  ''', re.VERBOSE)
  \<close>
\<close>

definition ESC :: char where
  "ESC = CHR 0x1B"

definition code :: "char \<Rightarrow> nat" where
  "code c = of_char c"

text \<open>\<open>[@-Z\\-_]\<close>: the codes 0x40 to 0x5A and 0x5C to 0x5F (so not \<open>[\<close>, which is 0x5B).\<close>

definition is_fe :: "char \<Rightarrow> bool" where
  "is_fe c = ((0x40 \<le> code c \<and> code c \<le> 0x5A) \<or> (0x5C \<le> code c \<and> code c \<le> 0x5F))"

text \<open>\<open>[0-?]\<close>: 0x30 to 0x3F.\<close>

definition is_param :: "char \<Rightarrow> bool" where
  "is_param c = (0x30 \<le> code c \<and> code c \<le> 0x3F)"

text \<open>\<open>[ -/]\<close>: 0x20 to 0x2F.\<close>

definition is_inter :: "char \<Rightarrow> bool" where
  "is_inter c = (0x20 \<le> code c \<and> code c \<le> 0x2F)"

text \<open>\<open>[@-~]\<close>: 0x40 to 0x7E.\<close>

definition is_final :: "char \<Rightarrow> bool" where
  "is_final c = (0x40 \<le> code c \<and> code c \<le> 0x7E)"

text \<open>
  \<open>ansi_match s\<close> is the attempt of the pattern at the first position of \<open>s\<close>: the rest
  of the string after the match, or \<open>None\<close>. The two alternatives exclude each other on the
  character after ESC. In the CSI alternative the three classes are pairwise disjoint, so
  the greedy stars take every parameter byte, then every intermediate byte, and giving one
  back can never produce a final byte: the match, when there is one, is unique.
\<close>

fun ansi_match :: "string \<Rightarrow> string option" where
  "ansi_match (e # c # rest) =
     (if e \<noteq> ESC then None
      else if is_fe c then Some rest
      else if c = CHR ''['' then
        (case dropWhile is_inter (dropWhile is_param rest) of
           [] \<Rightarrow> None
         | f # rest' \<Rightarrow> if is_final f then Some rest' else None)
      else None)"
| "ansi_match _ = None"

lemma ansi_match_shorter: "ansi_match s = Some r \<Longrightarrow> length r < length s"
proof (cases s rule: ansi_match.cases)
  case (1 e c rest)
  assume m: "ansi_match s = Some r"
  have d: "length (dropWhile is_inter (dropWhile is_param rest)) \<le> length rest"
    by (meson length_dropWhile_le order_trans)
  from m 1 d show ?thesis
    by (auto split: if_splits list.splits)
qed simp_all

text \<open>
  \<open>re.sub('', txt)\<close> scans from the left: where the pattern matches, the match is dropped
  and the scan goes on after it; elsewhere the character is kept. Every match has at least
  two characters, so there is no empty match to consider.
\<close>

function filter_ansi :: "string \<Rightarrow> string" where
  "filter_ansi [] = []"
| "filter_ansi (c # cs) =
     (case ansi_match (c # cs) of
        Some rest \<Rightarrow> filter_ansi rest
      | None \<Rightarrow> c # filter_ansi cs)"
  by pat_completeness auto
termination
  by (relation "measure length") (auto dest: ansi_match_shorter)

text \<open>A string contains an escape sequence when the pattern matches at some position.\<close>

fun has_ansi :: "string \<Rightarrow> bool" where
  "has_ansi [] = False"
| "has_ansi (c # cs) = (ansi_match (c # cs) \<noteq> None \<or> has_ansi cs)"

section \<open>Styled strings: \<open>PrettyLogger.log\<close> and \<open>PrettyLogger.s\<close>\<close>

datatype error =
  TypeError | ValueError | AssertionError | KeyError | StopIteration
  | FileNotFoundError | NotADirectoryError | IsADirectoryError | AttributeError

text \<open>
  The colour codes are those of the \<open>colorama\<close> package, which builds each one as
  \<open>CSI + str(code) + 'm'\<close> with \<open>CSI = '\033['\<close>:
  YELLOW 33, RED 31, GREEN 32, BLUE 34, MAGENTA 35, \<open>Fore.RESET\<close> 39, \<open>Back.RESET\<close> 49,
  \<open>Style.RESET_ALL\<close> 0, \<open>Style.BRIGHT\<close> 1.
\<close>

definition code_to_chars :: "string \<Rightarrow> string" where
  "code_to_chars n = ESC # CHR ''['' # n @ ''m''"

definition Fore_YELLOW :: string where "Fore_YELLOW = code_to_chars ''33''"
definition Fore_RED :: string where "Fore_RED = code_to_chars ''31''"
definition Fore_GREEN :: string where "Fore_GREEN = code_to_chars ''32''"
definition Fore_BLUE :: string where "Fore_BLUE = code_to_chars ''34''"
definition Fore_MAGENTA :: string where "Fore_MAGENTA = code_to_chars ''35''"
definition Fore_RESET :: string where "Fore_RESET = code_to_chars ''39''"
definition Back_RESET :: string where "Back_RESET = code_to_chars ''49''"
definition Style_RESET_ALL :: string where "Style_RESET_ALL = code_to_chars ''0''"
definition Style_BRIGHT :: string where "Style_BRIGHT = code_to_chars ''1''"

text \<open>\<open>reset = colorama.Fore.RESET + colorama.Back.RESET + colorama.Style.RESET_ALL\<close>\<close>

definition reset :: string where
  "reset = Fore_RESET @ Back_RESET @ Style_RESET_ALL"

text \<open>The style table \<open>PrettyLogger.key2c\<close>, in the order of the source.\<close>

definition key2c_items :: "(string \<times> string) list" where
  "key2c_items =
    [(''log'', []),
     (''warn'', Fore_YELLOW),
     (''error'', Fore_RED),
     (''err'', Fore_RED),
     (''success'', Fore_GREEN),
     (''suc'', Fore_GREEN),
     (''info'', Fore_BLUE),
     (''i'', Fore_BLUE),
     (''w'', Fore_RED),
     (''y'', Fore_YELLOW),
     (''yellow'', Fore_YELLOW),
     (''red'', Fore_RED),
     (''r'', Fore_RED),
     (''green'', Fore_GREEN),
     (''g'', Fore_GREEN),
     (''blue'', Fore_BLUE),
     (''b'', Fore_BLUE),
     (''m'', Fore_MAGENTA)]"

definition key2c :: "string \<rightharpoonup> string" where
  "key2c = map_of key2c_items"

text \<open>
  \<open>PrettyLogger.log(s, c, as_str=True, bold)\<close> with \<open>pad\<close> left at \<open>None\<close>, which is how
  \<open>PrettyLogger.s\<close> calls it (the printing branch reads the clock and is not modelled).
  The argument \<open>c\<close> is a Python string or \<open>None\<close>; \<open>txt\<close> is \<open>str(s)\<close>, which is what
  the f-string \<open>f'{c}{s}{reset}'\<close> formats. \<open>None in key2c\<close> is false, \<open>None += str\<close> is a
  \<open>TypeError\<close>, and \<open>f'{None}'\<close> is \<open>'None'\<close>.
\<close>

definition pl_log :: "string \<Rightarrow> string option \<Rightarrow> bool \<Rightarrow> error + string" where
  "pl_log txt c bold =
     (let (c1, need_reset1) =
            (case c of
               None \<Rightarrow> (None, False)
             | Some k \<Rightarrow> (case key2c k of Some col \<Rightarrow> (Some col, True) | None \<Rightarrow> (Some k, False)))
      in if bold then
           (case c1 of
              None \<Rightarrow> Inl TypeError
            | Some col \<Rightarrow> Inr (col @ Style_BRIGHT @ txt @ reset))
         else
           Inr ((case c1 of None \<Rightarrow> ''None'' | Some col \<Rightarrow> col) @ txt
                @ (if need_reset1 then reset else [])))"

text \<open>
  \<open>PrettyLogger.s(s, c=None, bold=False, with_color=True)\<close>:
  \<open>c = c if with_color else ''\<close>, then \<open>log(s, c=c, as_str=True, bold=bold)\<close>.
\<close>

definition pl_s :: "string \<Rightarrow> string option \<Rightarrow> bool \<Rightarrow> bool \<Rightarrow> error + string" where
  "pl_s txt c bold with_color = pl_log txt (if with_color then c else Some []) bold"

subsection \<open>Stripping a styled string\<close>

lemma dropWhile_append_cases:
  "dropWhile p (xs @ ys) = (if dropWhile p xs = [] then dropWhile p ys else dropWhile p xs @ ys)"
  by (induct xs) auto

lemma esc_classes [simp]: "\<not> is_fe ESC" "\<not> is_param ESC" "\<not> is_inter ESC" "\<not> is_final ESC" "ESC \<noteq> CHR ''[''"
  by (simp_all add: is_fe_def is_param_def is_inter_def is_final_def ESC_def code_def)

lemma ansi_match_append_esc:
  assumes "ansi_match s = None" "s \<noteq> []"
  shows "ansi_match (s @ ESC # r) = None"
proof (cases s rule: ansi_match.cases)
  case (1 e c rest)
  with assms show ?thesis
    by (auto simp: dropWhile_append_cases split: if_splits list.splits)
qed (use assms in simp_all)

lemma filter_ansi_append_esc:
  "\<not> has_ansi t \<Longrightarrow> filter_ansi (t @ ESC # r) = t @ filter_ansi (ESC # r)"
proof (induction t)
  case Nil show ?case by simp
next
  case (Cons c cs)
  then have m: "ansi_match (c # cs) = None" and h: "\<not> has_ansi cs" by auto
  have "ansi_match ((c # cs) @ ESC # r) = None"
    by (rule ansi_match_append_esc[OF m]) simp
  then show ?case using Cons.IH[OF h] by simp
qed

lemma ansi_match_code:
  "\<forall>c\<in>set n. is_param c \<Longrightarrow> ansi_match (code_to_chars n @ x) = Some x"
  by (simp add: code_to_chars_def dropWhile_append_cases is_fe_def is_param_def is_inter_def is_final_def code_def)

lemma filter_ansi_code:
  "\<forall>c\<in>set n. is_param c \<Longrightarrow> filter_ansi (code_to_chars n @ x) = filter_ansi x"
  using ansi_match_code[of n x] by (simp add: code_to_chars_def)

lemma filter_ansi_colours [simp]:
  "filter_ansi (Fore_YELLOW @ x) = filter_ansi x"
  "filter_ansi (Fore_RED @ x) = filter_ansi x"
  "filter_ansi (Fore_GREEN @ x) = filter_ansi x"
  "filter_ansi (Fore_BLUE @ x) = filter_ansi x"
  "filter_ansi (Fore_MAGENTA @ x) = filter_ansi x"
  "filter_ansi (Fore_RESET @ x) = filter_ansi x"
  "filter_ansi (Back_RESET @ x) = filter_ansi x"
  "filter_ansi (Style_RESET_ALL @ x) = filter_ansi x"
  "filter_ansi (Style_BRIGHT @ x) = filter_ansi x"
  unfolding Fore_YELLOW_def Fore_RED_def Fore_GREEN_def Fore_BLUE_def Fore_MAGENTA_def
    Fore_RESET_def Back_RESET_def Style_RESET_ALL_def Style_BRIGHT_def
  by (rule filter_ansi_code, simp add: is_param_def code_def)+

lemma filter_ansi_reset: "filter_ansi (reset @ x) = filter_ansi x"
  by (simp add: reset_def)

lemma reset_esc: "\<exists>r. reset = ESC # r"
  by (simp add: reset_def Fore_RESET_def code_to_chars_def)

lemma filter_ansi_text_reset:
  assumes "\<not> has_ansi t" shows "filter_ansi (t @ reset) = t"
proof -
  obtain r where r: "reset = ESC # r" using reset_esc by blast
  have "filter_ansi (t @ reset) = t @ filter_ansi reset"
    using filter_ansi_append_esc[OF assms, of r] r by simp
  moreover have "filter_ansi reset = []"
    using filter_ansi_reset[of "[]"] by simp
  ultimately show ?thesis by simp
qed

lemma no_ansi_filter_id: "\<not> has_ansi t \<Longrightarrow> filter_ansi t = t"
  by (induction t) auto

definition is_colour :: "string \<Rightarrow> bool" where
  "is_colour col = (col \<in> {[], Fore_YELLOW, Fore_RED, Fore_GREEN, Fore_BLUE, Fore_MAGENTA})"

lemma key2c_colour: "key2c k = Some col \<Longrightarrow> is_colour col"
  by (auto simp: key2c_def key2c_items_def is_colour_def split: if_splits)

lemma filter_ansi_colour: "is_colour col \<Longrightarrow> filter_ansi (col @ x) = filter_ansi x"
  by (auto simp: is_colour_def)

text \<open>
  Claim C2. For every text in which the pattern matches nowhere and every key of the style
  table \<open>key2c\<close>, \<open>PrettyLogger.s(text, c=key)\<close> returns a string (for either value of
  \<open>bold\<close>), and \<open>_filter_ansi\<close> of that string is the text again.
\<close>

theorem strip_style_recovers_text:
  assumes "\<not> has_ansi text" and "key \<in> dom key2c"
  shows "\<exists>styled. pl_s text (Some key) bold True = Inr styled \<and> filter_ansi styled = text"
proof -
  from assms(2) obtain col where col: "key2c key = Some col" by auto
  have c: "is_colour col" by (rule key2c_colour[OF col])
  have t: "filter_ansi (text @ reset) = text" by (rule filter_ansi_text_reset[OF assms(1)])
  show ?thesis
  proof (cases bold)
    case True
    have "pl_s text (Some key) bold True = Inr (col @ Style_BRIGHT @ text @ reset)"
      using col True by (simp add: pl_s_def pl_log_def)
    moreover have "filter_ansi (col @ Style_BRIGHT @ text @ reset) = text"
      using t by (simp add: filter_ansi_colour[OF c])
    ultimately show ?thesis by blast 
  next
    case False
    have "pl_s text (Some key) bold True = Inr (col @ text @ reset)"
      using col False by (simp add: pl_s_def pl_log_def)
    moreover have "filter_ansi (col @ text @ reset) = text"
      using t by (simp add: filter_ansi_colour[OF c])
    ultimately show ?thesis by blast 
  qed
qed

theorem strip_style_recovers_text_witness:
  "\<not> has_ansi ''hello'' \<and> ''warn'' \<in> dom key2c
   \<and> pl_s ''hello'' (Some ''warn'') False True = Inr (Fore_YELLOW @ ''hello'' @ reset)
   \<and> filter_ansi (Fore_YELLOW @ ''hello'' @ reset) = ''hello''"
proof -
  have h: "\<not> has_ansi ''hello''" by (simp add: ESC_def)
  have k: "''warn'' \<in> dom key2c" by (simp add: key2c_def key2c_items_def)
  have e: "pl_s ''hello'' (Some ''warn'') False True = Inr (Fore_YELLOW @ ''hello'' @ reset)"
    by (simp add: pl_s_def pl_log_def key2c_def key2c_items_def)
  from strip_style_recovers_text[OF h k, of False] e show ?thesis using h k by auto
qed

section \<open>Structured rendering: \<open>PrettyLogger.i\<close>, \<open>_float\<close>, \<open>_iter\<close>, \<open>_dict\<close>, \<open>pa\<close>, \<open>nc\<close>\<close>

subsection \<open>Values and keyword arguments\<close>

text \<open>
  The values \<open>PrettyLogger.i\<close> tells apart with \<open>isinstance\<close>: \<open>dict\<close>, \<open>list\<close>, \<open>tuple\<close>,
  \<open>float\<close>, and everything else, of which strings, integers, booleans and \<open>None\<close> are
  modelled. A float is carried by its default string form \<open>str(f)\<close>, the only thing the
  code reads of it. A dictionary is the list of its items in insertion order; a key is
  carried by \<open>str(k)\<close>, which is what \<open>f'{k}...'\<close> formats.
\<close>

datatype pyval =
    VStr string
  | VInt int
  | VBool bool
  | VNone
  | VFloat string
  | VList "pyval list"
  | VTuple "pyval list"
  | VDict "(string \<times> pyval) list"

text \<open>\<open>for_path\<close> is \<open>False\<close>, \<open>True\<close> or the string \<open>'shorter-bool'\<close>.\<close>

datatype for_path = FP_False | FP_True | FP_ShorterBool

text \<open>
  \<open>**kwargs\<close> of \<open>PrettyLogger.i\<close>: for each keyword the functions below name, whether it
  was passed and with which value. \<open>pad_float\<close> may be passed as \<open>None\<close>; a pad of
  \<open>None\<close>, \<open>False\<close> or \<open>0\<close> is falsy and is carried as \<open>None\<close> or \<open>Some 0\<close>.
  The catch-all \<open>**kwargs\<close> of \<open>_dict\<close> (keywords it does not name) is empty in this model, so
  that \<open>d = d or kwargs or dict()\<close> is \<open>d\<close> (an empty \<open>d\<close> stays empty).
\<close>

record kwargs =
  kw_with_color :: "bool option"
  kw_pad_float :: "nat option option"
  kw_key_value_sep :: "string option"
  kw_pairs_sep :: "string option"
  kw_for_path :: "for_path option"
  kw_omit_none_val :: "bool option"

definition no_kwargs :: kwargs where
  "no_kwargs = \<lparr>kw_with_color = None, kw_pad_float = None, kw_key_value_sep = None,
     kw_pairs_sep = None, kw_for_path = None, kw_omit_none_val = None\<rparr>"

definition get_with_color :: "kwargs \<Rightarrow> bool" where
  "get_with_color kw = (case kw_with_color kw of None \<Rightarrow> True | Some b \<Rightarrow> b)"

definition get_for_path :: "kwargs \<Rightarrow> for_path" where
  "get_for_path kw = (case kw_for_path kw of None \<Rightarrow> FP_False | Some fp \<Rightarrow> fp)"

definition get_pad_float :: "kwargs \<Rightarrow> nat option" where
  "get_pad_float kw = (case kw_pad_float kw of None \<Rightarrow> None | Some p \<Rightarrow> p)"

subsection \<open>Strings of the standard library\<close>

text \<open>\<open>str(n)\<close> for an integer: decimal digits, with a minus sign when negative.\<close>

definition digit_char :: "nat \<Rightarrow> char" where
  "digit_char d = ''0123456789'' ! d"

fun str_nat :: "nat \<Rightarrow> string" where
  "str_nat n = (if n < 10 then [digit_char n] else str_nat (n div 10) @ [digit_char (n mod 10)])"

declare str_nat.simps [simp del]

definition str_int :: "int \<Rightarrow> string" where
  "str_int i = (if i < 0 then CHR ''-'' # str_nat (nat (- i)) else str_nat (nat i))"

text \<open>\<open>sep.join(lst)\<close>\<close>

fun join :: "string \<Rightarrow> string list \<Rightarrow> string" where
  "join sep [] = []"
| "join sep [x] = x"
| "join sep (x # y # ys) = x @ sep @ join sep (y # ys)"

text \<open>
  \<open>s.replace(old, new)\<close>: every occurrence of \<open>old\<close>, found from the left and not
  overlapping, becomes \<open>new\<close>; an empty \<open>old\<close> puts \<open>new\<close> around every character.
\<close>

function replace :: "string \<Rightarrow> string \<Rightarrow> string \<Rightarrow> string" where
  "replace old new s =
     (if old = [] then new @ concat (map (\<lambda>c. c # new) s)
      else case s of
        [] \<Rightarrow> []
      | c # cs \<Rightarrow>
          if take (length old) s = old then new @ replace old new (drop (length old) s)
          else c # replace old new cs)"
  by pat_completeness auto
termination
  by (relation "measure (\<lambda>(old, new, s). length s)") auto

declare replace.simps [simp del]

text \<open>\<open>f'{f:>{pad}}'\<close>: the default string form, padded with spaces on the left to \<open>pad\<close>.\<close>

definition rjust :: "string \<Rightarrow> nat \<Rightarrow> string" where
  "rjust s w = replicate (w - length s) CHR '' '' @ s"

text \<open>Errors are exceptions: the first element that raises ends a comprehension.\<close>

definition bind :: "error + 'a \<Rightarrow> ('a \<Rightarrow> error + 'b) \<Rightarrow> error + 'b" where
  "bind m f = (case m of Inl e \<Rightarrow> Inl e | Inr x \<Rightarrow> f x)"

fun sequence :: "(error + 'a) list \<Rightarrow> error + 'a list" where
  "sequence [] = Inr []"
| "sequence (x # xs) =
     (case x of
        Inl e \<Rightarrow> Inl e
      | Inr v \<Rightarrow> (case sequence xs of Inl e \<Rightarrow> Inl e | Inr vs \<Rightarrow> Inr (v # vs)))"

subsection \<open>\<open>PrettyLogger._float\<close>\<close>

text \<open>
  Modelled from the spec: \<open>float_is_sci\<close> is called by \<open>_float\<close> and expected from
  \<open>stefutil.primitive\<close>, whose file under \<open>src/\<close> neither defines nor exports it. The spec
  says of the float case: "if the default string form contains an exponent".
\<close>

definition float_is_sci :: "string \<Rightarrow> bool" where
  "float_is_sci f = (CHR ''e'' \<in> set f)"

text \<open>
  \<^verbatim>\<open>
  def _float(f: float, pad: int = None) -> str:
      if float_is_sci(f):
          return str(f).replace('e-0', 'e-').replace('e+0', 'e+')  # remove leading 0
      elif pad:
          return f'{f:>{pad}}'
      else:
          return str(f)
  \<close>
\<close>

definition pl_float :: "string \<Rightarrow> nat option \<Rightarrow> string" where
  "pl_float f pad =
     (if float_is_sci f then replace ''e+0'' ''e+'' (replace ''e-0'' ''e-'' f)
      else case pad of
        Some w \<Rightarrow> if w \<noteq> 0 then rjust f w else f
      | None \<Rightarrow> f)"

subsection \<open>\<open>PrettyLogger.i\<close> and the functions it dispatches to\<close>

text \<open>
  The last branch of \<open>PrettyLogger.i\<close>, for a value that is no dict, list, tuple or float:
  \<^verbatim>\<open>
  kwargs_ = dict(c='i'); kwargs_.update(kwargs); kwargs_.pop('pad_float', None)
  return PrettyLogger.s(s, **kwargs_)
  \<close>
  \<open>PrettyLogger.s\<close> takes \<open>c\<close>, \<open>bold\<close> and \<open>with_color\<close>; any other keyword is a
  \<open>TypeError\<close>. The caller has removed \<open>pad_float\<close>; \<open>txt\<close> is \<open>str(s)\<close>.
\<close>

definition i_scalar :: "string \<Rightarrow> kwargs \<Rightarrow> error + string" where
  "i_scalar txt kw =
     (if kw_key_value_sep kw \<noteq> None \<or> kw_pairs_sep kw \<noteq> None
         \<or> kw_for_path kw \<noteq> None \<or> kw_omit_none_val kw \<noteq> None
      then Inl TypeError
      else pl_s txt (Some ''i'') False (get_with_color kw))"

text \<open>
  \<open>_iter\<close>, \<open>_dict\<close> and its inner \<open>_log_val\<close> call \<open>PrettyLogger.i\<close> on the parts of
  their argument. Each is written first with that call as the parameter \<open>rec\<close>, and
  \<open>pl_i\<close> closes the recursion below.

  \<^verbatim>\<open>
  def _iter(it, with_color=True, pref='[', post=']', for_path=False):
      if with_color:
          pref, post = PrettyLogger.s(pref, c='m'), PrettyLogger.s(post, c='m')
      lst = [PrettyLogger.i(e, with_color=with_color) for e in it]
      sep = ',' if for_path else ', '
      return f'{pref}{sep.join(lst)}{post}'
  \<close>
\<close>

definition iter_with ::
  "(kwargs \<Rightarrow> pyval \<Rightarrow> error + string) \<Rightarrow> pyval list \<Rightarrow> bool \<Rightarrow> string \<Rightarrow> string \<Rightarrow> for_path
   \<Rightarrow> error + string" where
  "iter_with rec it with_color pref post for_path =
     bind (if with_color then pl_s pref (Some ''m'') False True else Inr pref) (\<lambda>pref1.
     bind (if with_color then pl_s post (Some ''m'') False True else Inr post) (\<lambda>post1.
     bind (sequence (map (rec (no_kwargs\<lparr>kw_with_color := Some with_color\<rparr>)) it)) (\<lambda>lst.
     Inr (pref1 @ join (if for_path \<noteq> FP_False then '','' else '', '') lst @ post1))))"

text \<open>
  \<open>_log_val(v)\<close>, the closure inside \<open>_dict\<close>. It reads \<open>key_value_sep\<close> when it is
  called, that is after \<open>_dict\<close> has reassigned it.
  \<^verbatim>\<open>
  def _log_val(v):
      if isinstance(v, dict):
          return PrettyLogger.i(
              v, with_color=with_color, pad_float=pad_float, key_value_sep=key_value_sep,
              pairs_sep=pairs_sep, for_path=for_path, omit_none_val=omit_none_val, **kwargs)
      elif isinstance(v, (list, tuple)):
          return PrettyLogger.i(v, with_color=with_color, for_path=for_path)
      else:
          if for_path == 'shorter-bool' and isinstance(v, bool):
              return 'T' if v else 'F'
          else:
              return PrettyLogger.i(v, with_color=with_color, pad_float=pad_float)
  \<close>
\<close>

definition log_val_with ::
  "(kwargs \<Rightarrow> pyval \<Rightarrow> error + string) \<Rightarrow> bool \<Rightarrow> nat option \<Rightarrow> string \<Rightarrow> string \<Rightarrow> for_path
   \<Rightarrow> bool \<Rightarrow> pyval \<Rightarrow> error + string" where
  "log_val_with rec with_color pad_float key_value_sep pairs_sep for_path omit_none_val v =
     (case v of
        VDict _ \<Rightarrow>
          rec \<lparr>kw_with_color = Some with_color, kw_pad_float = Some pad_float,
               kw_key_value_sep = Some key_value_sep, kw_pairs_sep = Some pairs_sep,
               kw_for_path = Some for_path, kw_omit_none_val = Some omit_none_val\<rparr> v
      | VList _ \<Rightarrow>
          rec (no_kwargs\<lparr>kw_with_color := Some with_color, kw_for_path := Some for_path\<rparr>) v
      | VTuple _ \<Rightarrow>
          rec (no_kwargs\<lparr>kw_with_color := Some with_color, kw_for_path := Some for_path\<rparr>) v
      | VBool b \<Rightarrow>
          if for_path = FP_ShorterBool then Inr (if b then ''T'' else ''F'')
          else rec (no_kwargs\<lparr>kw_with_color := Some with_color, kw_pad_float := Some pad_float\<rparr>) v
      | _ \<Rightarrow> rec (no_kwargs\<lparr>kw_with_color := Some with_color, kw_pad_float := Some pad_float\<rparr>) v)"

text \<open>
  \<^verbatim>\<open>
  def _dict(d=None, with_color=True, pad_float=None, key_value_sep=': ', pairs_sep=', ',
            for_path=False, omit_none_val=False, **kwargs) -> str:
      ...
      d = d or kwargs or dict()
      if for_path:
          assert not with_color  # sanity check
          key_value_sep = '='
      if with_color:
          key_value_sep = PrettyLogger.s(key_value_sep, c='m')
      pairs = ((k if (omit_none_val and v is None) else f'{k}{key_value_sep}{_log_val(v)}')
               for k, v in d.items())
      pref, post = '{', '}'
      if with_color:
          pref, post = PrettyLogger.s(pref, c='m'), PrettyLogger.s(post, c='m')
      return pref + pairs_sep.join(pairs) + post
  \<close>
\<close>

definition dict_with ::
  "(kwargs \<Rightarrow> pyval \<Rightarrow> error + string) \<Rightarrow> (string \<times> pyval) list \<Rightarrow> bool \<Rightarrow> nat option \<Rightarrow> string
   \<Rightarrow> string \<Rightarrow> for_path \<Rightarrow> bool \<Rightarrow> error + string" where
  "dict_with rec d with_color pad_float key_value_sep pairs_sep for_path omit_none_val =
     (if for_path \<noteq> FP_False \<and> with_color then Inl AssertionError
      else
        bind (let kvs = (if for_path \<noteq> FP_False then ''='' else key_value_sep)
              in if with_color then pl_s kvs (Some ''m'') False True else Inr kvs) (\<lambda>kvs.
        bind (if with_color then pl_s ''{'' (Some ''m'') False True else Inr ''{'') (\<lambda>pref.
        bind (if with_color then pl_s ''}'' (Some ''m'') False True else Inr ''}'') (\<lambda>post.
        bind (sequence (map (\<lambda>(k, v).
                if omit_none_val \<and> v = VNone then Inr k
                else bind (log_val_with rec with_color pad_float kvs pairs_sep for_path
                             omit_none_val v) (\<lambda>sv. Inr (k @ kvs @ sv))) d)) (\<lambda>pairs.
        Inr (pref @ join pairs_sep pairs @ post))))))"

lemma iter_with_cong [fundef_cong]:
  assumes "it = it'" and "\<And>kw e. e \<in> set it' \<Longrightarrow> rec kw e = rec' kw e"
  shows "iter_with rec it wc pref post fp = iter_with rec' it' wc pref post fp"
proof -
  have h: "map (rec kw) it' = map (rec' kw) it'" for kw
    using assms(2) by (auto intro: map_cong)
  show ?thesis unfolding iter_with_def assms(1) h by (rule refl)
qed

lemma log_val_with_cong:
  assumes "\<And>kw. rec kw v = rec' kw v"
  shows "log_val_with rec wc pf kvs ps fp om v = log_val_with rec' wc pf kvs ps fp om v"
  using assms by (cases v) (simp_all add: log_val_with_def)

lemma dict_with_cong [fundef_cong]:
  assumes "d = d'" and "\<And>kw k v. (k, v) \<in> set d' \<Longrightarrow> rec kw v = rec' kw v"
  shows "dict_with rec d wc pf kvs ps fp om = dict_with rec' d' wc pf kvs ps fp om"
proof -
  have h: "map (\<lambda>(k, v). if om \<and> v = VNone then Inr k
            else bind (log_val_with rec wc pf x ps fp om v) (\<lambda>sv. Inr (k @ x @ sv))) d'
      = map (\<lambda>(k, v). if om \<and> v = VNone then Inr k
            else bind (log_val_with rec' wc pf x ps fp om v) (\<lambda>sv. Inr (k @ x @ sv))) d'" for x
    by (rule map_cong) (auto simp: log_val_with_cong[of rec _ rec'] assms(2))
  show ?thesis unfolding dict_with_def assms(1) h by (rule refl)
qed

text \<open>
  \<^verbatim>\<open>
  def i(s, **kwargs):
      if isinstance(s, dict):    return PrettyLogger._dict(s, **kwargs)
      elif isinstance(s, list):  return PrettyLogger._list(s, **kwargs)
      elif isinstance(s, tuple): return PrettyLogger._tuple(s, **kwargs)
      elif isinstance(s, float):
          s = PrettyLogger._float(s, pad=kwargs.get('pad') or kwargs.pop('pad_float', None))
          return PrettyLogger.i(s, **kwargs)
      else: ...
  \<close>
  \<open>_list\<close> and \<open>_tuple\<close> take \<open>with_color\<close> and \<open>for_path\<close> only, so any other keyword
  is a \<open>TypeError\<close>; they call \<open>_iter\<close> with the brackets of their kind. In the float
  branch the second call of \<open>i\<close> receives a string and so ends in the last branch.
\<close>

fun pl_i :: "kwargs \<Rightarrow> pyval \<Rightarrow> error + string" where
  "pl_i kw (VDict d) =
     dict_with pl_i d (get_with_color kw) (get_pad_float kw)
       (case kw_key_value_sep kw of None \<Rightarrow> '': '' | Some x \<Rightarrow> x)
       (case kw_pairs_sep kw of None \<Rightarrow> '', '' | Some x \<Rightarrow> x)
       (get_for_path kw)
       (case kw_omit_none_val kw of None \<Rightarrow> False | Some b \<Rightarrow> b)"
| "pl_i kw (VList l) =
     (if kw_pad_float kw \<noteq> None \<or> kw_key_value_sep kw \<noteq> None \<or> kw_pairs_sep kw \<noteq> None
         \<or> kw_omit_none_val kw \<noteq> None
      then Inl TypeError
      else iter_with pl_i l (get_with_color kw) ''['' '']'' (get_for_path kw))"
| "pl_i kw (VTuple l) =
     (if kw_pad_float kw \<noteq> None \<or> kw_key_value_sep kw \<noteq> None \<or> kw_pairs_sep kw \<noteq> None
         \<or> kw_omit_none_val kw \<noteq> None
      then Inl TypeError
      else iter_with pl_i l (get_with_color kw) ''('' '')'' (get_for_path kw))"
| "pl_i kw (VFloat f) = i_scalar (pl_float f (get_pad_float kw)) (kw\<lparr>kw_pad_float := None\<rparr>)"
| "pl_i kw (VStr x) = i_scalar x (kw\<lparr>kw_pad_float := None\<rparr>)"
| "pl_i kw (VInt n) = i_scalar (str_int n) (kw\<lparr>kw_pad_float := None\<rparr>)"
| "pl_i kw (VBool b) = i_scalar (if b then ''True'' else ''False'') (kw\<lparr>kw_pad_float := None\<rparr>)"
| "pl_i kw VNone = i_scalar ''None'' (kw\<lparr>kw_pad_float := None\<rparr>)"

text \<open>The functions of the source, with the recursion closed.\<close>

definition pl_iter :: "pyval list \<Rightarrow> bool \<Rightarrow> string \<Rightarrow> string \<Rightarrow> for_path \<Rightarrow> error + string" where
  "pl_iter = iter_with pl_i"

definition pl_dict ::
  "(string \<times> pyval) list \<Rightarrow> bool \<Rightarrow> nat option \<Rightarrow> string \<Rightarrow> string \<Rightarrow> for_path \<Rightarrow> bool
   \<Rightarrow> error + string" where
  "pl_dict = dict_with pl_i"

text \<open>
  \<open>nc(s, **kwargs)\<close> is \<open>i(s, with_color=False, **kwargs)\<close>: passing \<open>with_color\<close> again is
  a \<open>TypeError\<close>.
\<close>

definition pl_nc :: "pyval \<Rightarrow> kwargs \<Rightarrow> error + string" where
  "pl_nc v kw =
     (if kw_with_color kw \<noteq> None then Inl TypeError
      else pl_i (kw\<lparr>kw_with_color := Some False\<rparr>) v)"

text \<open>
  \<^verbatim>\<open>
  def pa(s, shorter_bool: bool = True, **kwargs):
      assert isinstance(s, dict)
      fp = 'shorter-bool' if shorter_bool else True
      kwargs = kwargs or dict()
      kwargs['pairs_sep'] = ','  # remove whitespace to save LINUX file path escaping
      return PrettyLogger.i(s, for_path=fp, with_color=False, **kwargs)
  \<close>
\<close>

definition pl_pa :: "pyval \<Rightarrow> bool \<Rightarrow> kwargs \<Rightarrow> error + string" where
  "pl_pa v shorter_bool kw =
     (case v of
        VDict _ \<Rightarrow>
          if kw_for_path kw \<noteq> None \<or> kw_with_color kw \<noteq> None then Inl TypeError
          else pl_i (kw\<lparr>kw_pairs_sep := Some '','',
                        kw_for_path := Some (if shorter_bool then FP_ShorterBool else FP_True),
                        kw_with_color := Some False\<rparr>) v
      | _ \<Rightarrow> Inl AssertionError)"

subsection \<open>Scientific notation in \<open>_float\<close>\<close>

lemma replace_absent: "c \<notin> set s \<Longrightarrow> replace (c # t) new s = s"
proof (induction s)
  case Nil show ?case by (simp add: replace.simps)
next
  case (Cons x xs)
  then have "x \<noteq> c" and ih: "replace (c # t) new xs = xs" by auto
  then show ?case by (subst replace.simps) auto
qed

lemma replace_skip: "c \<notin> set m \<Longrightarrow> replace (c # t) new (m @ s) = m @ replace (c # t) new s"
proof (induction m)
  case Nil show ?case by simp
next
  case (Cons x xs)
  then have "x \<noteq> c" and ih: "replace (c # t) new (xs @ s) = xs @ replace (c # t) new s" by auto
  then show ?case by (subst replace.simps) auto
qed

text \<open>The digits of an exponent without one leading zero.\<close>

definition strip_zero :: "string \<Rightarrow> string" where
  "strip_zero ds = (if ds \<noteq> [] \<and> hd ds = CHR ''0'' then tl ds else ds)"

lemma replace_exp:
  assumes "CHR ''e'' \<notin> set ds" "sn \<noteq> CHR ''e''"
  shows "replace [CHR ''e'', sg, CHR ''0''] [CHR ''e'', sg] (CHR ''e'' # sn # ds)
         = CHR ''e'' # sn # (if sn = sg then strip_zero ds else ds)"
proof (cases "sn = sg \<and> ds \<noteq> [] \<and> hd ds = CHR ''0''")
  case True
  then obtain rest where ds: "ds = CHR ''0'' # rest" by (cases ds) auto
  with assms have "CHR ''e'' \<notin> set rest" by simp
  then have "replace [CHR ''e'', sg, CHR ''0''] [CHR ''e'', sg] rest = rest" by (rule replace_absent)
  then show ?thesis using True ds by (subst replace.simps) (simp add: strip_zero_def)
next
  case False
  have "CHR ''e'' \<notin> set (sn # ds)" using assms by auto
  then have r: "replace [CHR ''e'', sg, CHR ''0''] [CHR ''e'', sg] (sn # ds) = sn # ds" by (rule replace_absent)
  have "take 3 (CHR ''e'' # sn # ds) \<noteq> [CHR ''e'', sg, CHR ''0'']"
    using False by (cases ds) auto
  then show ?thesis using r False by (subst replace.simps) (auto simp: strip_zero_def)
qed

lemma pl_float_sci:
  assumes "CHR ''e'' \<notin> set m" "CHR ''e'' \<notin> set ds" "sn = CHR ''-'' \<or> sn = CHR ''+''"
  shows "pl_float (m @ CHR ''e'' # sn # ds) pad = m @ CHR ''e'' # sn # strip_zero ds"
proof -
  have sg: "sn \<noteq> CHR ''e''" using assms(3) by auto
  have sci: "float_is_sci (m @ CHR ''e'' # sn # ds)" by (simp add: float_is_sci_def)
  have 1: "replace ''e-0'' ''e-'' (m @ CHR ''e'' # sn # ds)
           = m @ CHR ''e'' # sn # (if sn = CHR ''-'' then strip_zero ds else ds)"
    using replace_skip[OF assms(1)] replace_exp[OF assms(2) sg, of "CHR ''-''"] by simp
  have e2: "CHR ''e'' \<notin> set (if sn = CHR ''-'' then strip_zero ds else ds)"
    using assms(2) by (cases ds) (auto simp: strip_zero_def)
  have 2: "replace ''e+0'' ''e+'' (m @ CHR ''e'' # sn # (if sn = CHR ''-'' then strip_zero ds else ds))
           = m @ CHR ''e'' # sn # strip_zero ds"
    using replace_skip[OF assms(1)] replace_exp[OF e2 sg, of "CHR ''+''"] assms(3)
    by (auto simp: strip_zero_def)
  show ?thesis unfolding pl_float_def using sci 1 2 by simp
qed

lemma pl_nc_float: "pl_nc (VFloat f) no_kwargs = Inr (pl_float f None)"
  by (simp add: pl_nc_def no_kwargs_def i_scalar_def pl_s_def pl_log_def get_with_color_def
      get_pad_float_def key2c_def key2c_items_def)

lemma pl_i_float: "pl_i no_kwargs (VFloat f) = Inr (Fore_BLUE @ pl_float f None @ reset)"
  by (simp add: no_kwargs_def i_scalar_def pl_s_def pl_log_def get_with_color_def
      get_pad_float_def key2c_def key2c_items_def)

text \<open>
  Claim C6. A float in scientific notation has the default string form
  \<open>mantissa e sign digits\<close>, the sign \<open>+\<close> or \<open>-\<close> and no \<open>e\<close> in the mantissa or the
  digits. For every such float \<open>_float\<close> returns the same string with one leading zero of
  the exponent removed (\<open>e-05\<close> becomes \<open>e-5\<close>, \<open>e-10\<close> stays), for any \<open>pad\<close>;
  \<open>PrettyLogger.nc\<close> returns exactly that string and \<open>PrettyLogger.i\<close> returns it between
  the colour of the key \<open>i\<close> and the reset sequence.
\<close>

theorem float_sci_exponent_stripped:
  assumes "CHR ''e'' \<notin> set m" and "CHR ''e'' \<notin> set ds" and "sn = CHR ''-'' \<or> sn = CHR ''+''"
  shows "pl_float (m @ CHR ''e'' # sn # ds) pad = m @ CHR ''e'' # sn # strip_zero ds
       \<and> pl_nc (VFloat (m @ CHR ''e'' # sn # ds)) no_kwargs = Inr (m @ CHR ''e'' # sn # strip_zero ds)
       \<and> pl_i no_kwargs (VFloat (m @ CHR ''e'' # sn # ds))
           = Inr (Fore_BLUE @ (m @ CHR ''e'' # sn # strip_zero ds) @ reset)"
  using pl_float_sci[OF assms] by (simp only: pl_nc_float pl_i_float simp_thms)

theorem float_sci_exponent_stripped_witness:
  "pl_float ''3e-05'' None = ''3e-5''
   \<and> pl_nc (VFloat ''3e-05'') no_kwargs = Inr ''3e-5''
   \<and> pl_i no_kwargs (VFloat ''3e-05'') = Inr (Fore_BLUE @ ''3e-5'' @ reset)"
  using float_sci_exponent_stripped[of "''3''" "''05''" "CHR ''-''" None]
  by (simp add: strip_zero_def)

end
